theory Spec2Isabelle
  imports Complex_Main
begin

section \<open>Data model of the canvas store\<close>

text \<open>
  The canvas store \<^verbatim>\<open>useCanvasStore\<close> is embedded as a record that every operation
  takes and returns. JavaScript numbers that carry geometry are read as
  real numbers (rounding of IEEE doubles and NaN are outside the model), page numbers as
  integers, \<^verbatim>\<open>Date.now()\<close> as a natural number of milliseconds. Ids and colours are
  strings; the \<^verbatim>\<open>tool\<close> tag is a list of UTF-16 code units, because the bounding box of
  a text stroke counts code units and looks for one above \<^verbatim>\<open>0x7F\<close>.
\<close>

record point =
  px :: real
  py :: real

type_synonym jsstring = "nat list"

definition lit :: "string \<Rightarrow> jsstring" where
  "lit s = map of_char s"

record stroke =
  id_s :: string
  points :: "point list"
  color :: string
  thickness :: real
  opacity :: real
  tool :: jsstring
  pageId :: int
  timestamp :: nat
  fillColor :: "string option"
  backgroundColor :: "string option"

text \<open>\<^verbatim>\<open>Omit<Stroke, "id" | "timestamp">\<close>, the argument of \<^verbatim>\<open>addStroke\<close>.\<close>

record strokeData =
  sd_points :: "point list"
  sd_color :: string
  sd_thickness :: real
  sd_opacity :: real
  sd_tool :: jsstring
  sd_pageId :: int
  sd_fillColor :: "string option"
  sd_backgroundColor :: "string option"

text \<open>
  \<^verbatim>\<open>Partial<Pick<Stroke, "points" | "thickness" | "color" | "fillColor" | "backgroundColor">>\<close>,
  the argument of \<^verbatim>\<open>updateStroke\<close>: \<open>None\<close> is a key that the object does not have.
\<close>

record updates =
  u_points :: "point list option"
  u_thickness :: "real option"
  u_color :: "string option"
  u_fillColor :: "string option"
  u_backgroundColor :: "string option"

record canvasStore =
  strokes :: "stroke list"
  undoStack :: "stroke list list"
  redoStack :: "stroke list list"
  currentPageId :: int
  selectedStrokeId :: "string option"
  selectedStrokeIds :: "string list"
  clipboard :: "stroke list"

definition init_store :: canvasStore where
  "init_store = \<lparr>strokes = [], undoStack = [], redoStack = [], currentPageId = 1,
     selectedStrokeId = None, selectedStrokeIds = [], clipboard = []\<rparr>"

subsection \<open>Clock and random source\<close>

text \<open>
  A new stroke gets the id \<^verbatim>\<open>`stroke-${Date.now()}-${Math.random().toString(36).substr(2, 9)}`\<close>
  and the timestamp \<^verbatim>\<open>Date.now()\<close>. The two clock readings and the random suffix are inputs
  of the model; \<^verbatim>\<open>paste\<close> and \<^verbatim>\<open>duplicateSelected\<close> take one reading per copied stroke,
  indexed by its position in the copied list.
\<close>

record reading =
  now_id :: nat
  rand36 :: string
  now_ts :: nat

definition digit :: "nat \<Rightarrow> char" where
  "digit d = ''0123456789'' ! d"

function decimal :: "nat \<Rightarrow> string" where
  "decimal n = (if n < 10 then [digit n] else decimal (n div 10) @ [digit (n mod 10)])"
  by pat_completeness auto
termination
  by (relation "measure (\<lambda>n. n)") auto

declare decimal.simps [simp del]

definition mk_id :: "reading \<Rightarrow> string" where
  "mk_id e = ''stroke-'' @ decimal (now_id e) @ ''-'' @ rand36 e"

subsection \<open>Mutating operations\<close>

text \<open>\<^verbatim>\<open>const newStroke: Stroke = { ...strokeData, id: ..., timestamp: Date.now() }\<close>.\<close>

definition newStroke :: "strokeData \<Rightarrow> reading \<Rightarrow> stroke" where
  "newStroke strokeData e =
     \<lparr>id_s = mk_id e, points = sd_points strokeData, color = sd_color strokeData,
      thickness = sd_thickness strokeData, opacity = sd_opacity strokeData,
      tool = sd_tool strokeData, pageId = sd_pageId strokeData, timestamp = now_ts e,
      fillColor = sd_fillColor strokeData, backgroundColor = sd_backgroundColor strokeData\<rparr>"

definition addStroke :: "strokeData \<Rightarrow> reading \<Rightarrow> canvasStore \<Rightarrow> canvasStore" where
  "addStroke strokeData e state =
     state\<lparr>strokes := strokes state @ [newStroke strokeData e],
           undoStack := undoStack state @ [strokes state],
           redoStack := []\<rparr>"

text \<open>The spread \<^verbatim>\<open>{ ...s, ...updates }\<close>: a key of \<^verbatim>\<open>updates\<close> replaces the stroke's.\<close>

definition merge_updates :: "stroke \<Rightarrow> updates \<Rightarrow> stroke" where
  "merge_updates s u =
     s\<lparr>points := (case u_points u of None \<Rightarrow> points s | Some v \<Rightarrow> v),
       thickness := (case u_thickness u of None \<Rightarrow> thickness s | Some v \<Rightarrow> v),
       color := (case u_color u of None \<Rightarrow> color s | Some v \<Rightarrow> v),
       fillColor := (case u_fillColor u of None \<Rightarrow> fillColor s | Some v \<Rightarrow> Some v),
       backgroundColor :=
         (case u_backgroundColor u of None \<Rightarrow> backgroundColor s | Some v \<Rightarrow> Some v)\<rparr>"

definition updateStroke :: "string \<Rightarrow> updates \<Rightarrow> canvasStore \<Rightarrow> canvasStore" where
  "updateStroke i u state =
     state\<lparr>strokes := map (\<lambda>s. if id_s s = i then merge_updates s u else s) (strokes state),
           undoStack := undoStack state @ [strokes state],
           redoStack := []\<rparr>"

definition deleteStroke :: "string \<Rightarrow> canvasStore \<Rightarrow> canvasStore" where
  "deleteStroke i state =
     state\<lparr>strokes := filter (\<lambda>s. id_s s \<noteq> i) (strokes state),
           undoStack := undoStack state @ [strokes state],
           redoStack := [],
           selectedStrokeId :=
             (if selectedStrokeId state = Some i then None else selectedStrokeId state),
           selectedStrokeIds := filter (\<lambda>sid. sid \<noteq> i) (selectedStrokeIds state)\<rparr>"

definition deleteSelectedStrokes :: "canvasStore \<Rightarrow> canvasStore" where
  "deleteSelectedStrokes state =
     (if length (selectedStrokeIds state) = 0 then state
      else state\<lparr>strokes :=
                    filter (\<lambda>s. id_s s \<notin> set (selectedStrokeIds state)) (strokes state),
                 undoStack := undoStack state @ [strokes state],
                 redoStack := [],
                 selectedStrokeId := None,
                 selectedStrokeIds := []\<rparr>)"

definition clearPage :: "int \<Rightarrow> canvasStore \<Rightarrow> canvasStore" where
  "clearPage pid state =
     state\<lparr>strokes := filter (\<lambda>s. pageId s \<noteq> pid) (strokes state),
           undoStack := undoStack state @ [strokes state],
           redoStack := []\<rparr>"

definition setCurrentPage :: "int \<Rightarrow> canvasStore \<Rightarrow> canvasStore" where
  "setCurrentPage pid state = state\<lparr>currentPageId := pid\<rparr>"

definition getPageStrokes :: "canvasStore \<Rightarrow> int \<Rightarrow> stroke list" where
  "getPageStrokes state pid = filter (\<lambda>s. pageId s = pid) (strokes state)"

definition getStrokeById :: "canvasStore \<Rightarrow> string \<Rightarrow> stroke option" where
  "getStrokeById state i = find (\<lambda>s. id_s s = i) (strokes state)"

subsection \<open>Clipboard\<close>

definition copySelected :: "canvasStore \<Rightarrow> canvasStore" where
  "copySelected state =
     (if length (selectedStrokeIds state) = 0 then state
      else state\<lparr>clipboard :=
             filter (\<lambda>s. id_s s \<in> set (selectedStrokeIds state)) (strokes state)\<rparr>)"

definition cutSelected :: "canvasStore \<Rightarrow> canvasStore" where
  "cutSelected state =
     (if length (selectedStrokeIds state) = 0 then state
      else state\<lparr>clipboard :=
                    filter (\<lambda>s. id_s s \<in> set (selectedStrokeIds state)) (strokes state),
                 strokes :=
                    filter (\<lambda>s. id_s s \<notin> set (selectedStrokeIds state)) (strokes state),
                 undoStack := undoStack state @ [strokes state],
                 redoStack := [],
                 selectedStrokeId := None,
                 selectedStrokeIds := []\<rparr>)"

definition translate :: "point \<Rightarrow> point \<Rightarrow> point" where
  "translate off p = \<lparr>px = px p + px off, py = py p + py off\<rparr>"

text \<open>
  The callback of \<^verbatim>\<open>clipboard.map\<close> in \<^verbatim>\<open>paste\<close> and of \<^verbatim>\<open>selectedStrokes.map\<close> in
  \<^verbatim>\<open>duplicateSelected\<close>, at the clock and random reading \<open>e\<close>.
\<close>

definition copy_stroke :: "int \<Rightarrow> point \<Rightarrow> reading \<Rightarrow> stroke \<Rightarrow> stroke" where
  "copy_stroke pid off e s =
     s\<lparr>id_s := mk_id e, timestamp := now_ts e, pageId := pid,
       points := map (translate off) (points s)\<rparr>"

definition copy_all :: "int \<Rightarrow> point \<Rightarrow> (nat \<Rightarrow> reading) \<Rightarrow> stroke list \<Rightarrow> stroke list" where
  "copy_all pid off env src = map (\<lambda>(k, s). copy_stroke pid off (env k) s) (enumerate 0 src)"

text \<open>\<^verbatim>\<open>newStrokes[0]?.id || null\<close>: the empty string is falsy.\<close>

definition first_id_or_null :: "stroke list \<Rightarrow> string option" where
  "first_id_or_null new =
     (case new of [] \<Rightarrow> None | s # _ \<Rightarrow> (if id_s s = [] then None else Some (id_s s)))"

definition default_offset :: point where
  "default_offset = \<lparr>px = 20, py = 20\<rparr>"

definition paste :: "int \<Rightarrow> point option \<Rightarrow> (nat \<Rightarrow> reading) \<Rightarrow> canvasStore \<Rightarrow> canvasStore" where
  "paste pid offset env state =
     (if length (clipboard state) = 0 then state
      else
        let off = (case offset of None \<Rightarrow> default_offset | Some v \<Rightarrow> v);
            newStrokes = copy_all pid off env (clipboard state)
        in state\<lparr>strokes := strokes state @ newStrokes,
                 undoStack := undoStack state @ [strokes state],
                 redoStack := [],
                 selectedStrokeIds := map id_s newStrokes,
                 selectedStrokeId := first_id_or_null newStrokes\<rparr>)"

definition duplicateSelected :: "int \<Rightarrow> (nat \<Rightarrow> reading) \<Rightarrow> canvasStore \<Rightarrow> canvasStore" where
  "duplicateSelected pid env state =
     (if length (selectedStrokeIds state) = 0 then state
      else
        let selectedStrokes =
              filter (\<lambda>s. id_s s \<in> set (selectedStrokeIds state)) (strokes state);
            newStrokes = copy_all pid \<lparr>px = 20, py = 20\<rparr> env selectedStrokes
        in state\<lparr>strokes := strokes state @ newStrokes,
                 undoStack := undoStack state @ [strokes state],
                 redoStack := [],
                 selectedStrokeIds := map id_s newStrokes,
                 selectedStrokeId := first_id_or_null newStrokes\<rparr>)"

subsection \<open>Selection\<close>

text \<open>\<^verbatim>\<open>id ? [id] : []\<close>: \<^verbatim>\<open>null\<close> and the empty string are falsy.\<close>

definition selectStroke :: "string option \<Rightarrow> canvasStore \<Rightarrow> canvasStore" where
  "selectStroke i state =
     state\<lparr>selectedStrokeId := i,
           selectedStrokeIds := (case i of None \<Rightarrow> [] | Some v \<Rightarrow> (if v = [] then [] else [v]))\<rparr>"

definition selectStrokes :: "string list \<Rightarrow> canvasStore \<Rightarrow> canvasStore" where
  "selectStrokes ids state =
     state\<lparr>selectedStrokeId := (if length ids > 0 then Some (ids ! 0) else None),
           selectedStrokeIds := ids\<rparr>"

definition addToSelection :: "string \<Rightarrow> canvasStore \<Rightarrow> canvasStore" where
  "addToSelection i state =
     (if i \<notin> set (selectedStrokeIds state)
      then state\<lparr>selectedStrokeIds := selectedStrokeIds state @ [i], selectedStrokeId := Some i\<rparr>
      else state)"

definition removeFromSelection :: "string \<Rightarrow> canvasStore \<Rightarrow> canvasStore" where
  "removeFromSelection i state =
     (let newIds = filter (\<lambda>sid. sid \<noteq> i) (selectedStrokeIds state)
      in state\<lparr>selectedStrokeIds := newIds,
               selectedStrokeId := (if length newIds > 0 then Some (newIds ! 0) else None)\<rparr>)"

definition clearSelection :: "canvasStore \<Rightarrow> canvasStore" where
  "clearSelection state = state\<lparr>selectedStrokeId := None, selectedStrokeIds := []\<rparr>"

subsection \<open>History\<close>

text \<open>\<^verbatim>\<open>undo\<close> and \<^verbatim>\<open>redo\<close> return a flag and the new store.\<close>

definition undo :: "canvasStore \<Rightarrow> bool \<times> canvasStore" where
  "undo state =
     (if length (undoStack state) = 0 then (False, state)
      else (True, state\<lparr>strokes := undoStack state ! (length (undoStack state) - 1),
                        undoStack := butlast (undoStack state),
                        redoStack := redoStack state @ [strokes state]\<rparr>))"

definition redo :: "canvasStore \<Rightarrow> bool \<times> canvasStore" where
  "redo state =
     (if length (redoStack state) = 0 then (False, state)
      else (True, state\<lparr>strokes := redoStack state ! (length (redoStack state) - 1),
                        redoStack := butlast (redoStack state),
                        undoStack := undoStack state @ [strokes state]\<rparr>))"

definition canUndo :: "canvasStore \<Rightarrow> bool" where
  "canUndo state = (length (undoStack state) > 0)"

definition canRedo :: "canvasStore \<Rightarrow> bool" where
  "canRedo state = (length (redoStack state) > 0)"

subsection \<open>Sequences of operations\<close>

text \<open>The eight operations that write \<^verbatim>\<open>strokes\<close>, with their arguments.\<close>

datatype op =
    AddStroke strokeData reading
  | UpdateStroke string updates
  | DeleteStroke string
  | DeleteSelectedStrokes
  | ClearPage int
  | CutSelected
  | Paste int "point option" "nat \<Rightarrow> reading"
  | DuplicateSelected int "nat \<Rightarrow> reading"

fun apply_op :: "op \<Rightarrow> canvasStore \<Rightarrow> canvasStore" where
  "apply_op (AddStroke d e) state = addStroke d e state"
| "apply_op (UpdateStroke i u) state = updateStroke i u state"
| "apply_op (DeleteStroke i) state = deleteStroke i state"
| "apply_op DeleteSelectedStrokes state = deleteSelectedStrokes state"
| "apply_op (ClearPage pid) state = clearPage pid state"
| "apply_op CutSelected state = cutSelected state"
| "apply_op (Paste pid offset env) state = paste pid offset env state"
| "apply_op (DuplicateSelected pid env) state = duplicateSelected pid env state"

fun run_ops :: "op list \<Rightarrow> canvasStore \<Rightarrow> canvasStore" where
  "run_ops [] state = state"
| "run_ops (a # as) state = run_ops as (apply_op a state)"

text \<open>
  An operation takes effect when its early return is not taken: the operations on the
  selection return at once when nothing is selected, \<^verbatim>\<open>paste\<close> when the clipboard is empty.
\<close>

fun takes_effect :: "op \<Rightarrow> canvasStore \<Rightarrow> bool" where
  "takes_effect DeleteSelectedStrokes state = (selectedStrokeIds state \<noteq> [])"
| "takes_effect CutSelected state = (selectedStrokeIds state \<noteq> [])"
| "takes_effect (DuplicateSelected pid env) state = (selectedStrokeIds state \<noteq> [])"
| "takes_effect (Paste pid offset env) state = (clipboard state \<noteq> [])"
| "takes_effect _ state = True"

fun some_effect :: "op list \<Rightarrow> canvasStore \<Rightarrow> bool" where
  "some_effect [] state = False"
| "some_effect (a # as) state = (takes_effect a state \<or> some_effect as (apply_op a state))"

primrec undo_n :: "nat \<Rightarrow> canvasStore \<Rightarrow> canvasStore" where
  "undo_n 0 state = state"
| "undo_n (Suc n) state = undo_n n (snd (undo state))"

primrec redo_n :: "nat \<Rightarrow> canvasStore \<Rightarrow> canvasStore" where
  "redo_n 0 state = state"
| "redo_n (Suc n) state = redo_n n (snd (redo state))"

text \<open>
  What the specification asks of an edit: the strokes as they were before it are the new
  top of the undo stack, and the redo stack is empty.
\<close>

definition history_pushed :: "canvasStore \<Rightarrow> canvasStore \<Rightarrow> bool" where
  "history_pushed before after =
     (undoStack after = undoStack before @ [strokes before] \<and> redoStack after = [])"

text \<open>The specification's reading of the selection: the primary id is its first element.\<close>

definition primary_is_first :: "canvasStore \<Rightarrow> bool" where
  "primary_is_first state =
     (selectedStrokeId state =
        (case selectedStrokeIds state of [] \<Rightarrow> None | v # _ \<Rightarrow> Some v))"

text \<open>The strokes that the selection names, as the store's operations look them up.\<close>

definition selection_strokes :: "canvasStore \<Rightarrow> stroke list" where
  "selection_strokes state =
     filter (\<lambda>s. id_s s \<in> set (selectedStrokeIds state)) (strokes state)"

section \<open>Geometry of the viewer\<close>

text \<open>
  \<^verbatim>\<open>getStrokeBounds\<close>, \<^verbatim>\<open>findStrokeAtPoint\<close> and \<^verbatim>\<open>findStrokesInRect\<close> of the \<^verbatim>\<open>Viewer\<close>
  component. The component's props and React state that they read (\<^verbatim>\<open>currentPage\<close>,
  \<^verbatim>\<open>scale\<close>, \<^verbatim>\<open>wasmReady\<close>) are arguments.
\<close>

record bounds =
  minX :: real
  minY :: real
  maxX :: real
  maxY :: real

definition startsWith :: "jsstring \<Rightarrow> jsstring \<Rightarrow> bool" where
  "startsWith t p = (take (length p) t = p)"

text \<open>\<^verbatim>\<open>String.prototype.replace\<close> with a string pattern: the first occurrence only.\<close>

fun replace_first :: "jsstring \<Rightarrow> jsstring \<Rightarrow> jsstring \<Rightarrow> jsstring" where
  "replace_first pat rep [] = (if pat = [] then rep else [])"
| "replace_first pat rep (c # cs) =
     (if take (length pat) (c # cs) = pat then rep @ drop (length pat) (c # cs)
      else c # replace_first pat rep cs)"

definition getStrokeBounds :: "stroke option \<Rightarrow> bounds option" where
  "getStrokeBounds so =
     (case so of
        None \<Rightarrow> None
      | Some stroke \<Rightarrow>
          if length (points stroke) < 1 then None
          else if startsWith (tool stroke) (lit ''shape-'') \<and> length (points stroke) \<ge> 2 then
            Some \<lparr>minX = min (px (points stroke ! 0)) (px (points stroke ! 1)),
                  minY = min (py (points stroke ! 0)) (py (points stroke ! 1)),
                  maxX = max (px (points stroke ! 0)) (px (points stroke ! 1)),
                  maxY = max (py (points stroke ! 0)) (py (points stroke ! 1))\<rparr>
          else if startsWith (tool stroke) (lit ''text:'') then
            (let text = replace_first (lit ''text:'') [] (tool stroke);
                 fontSize = max 14 (thickness stroke * 4);
                 isMathSymbol = (length text = 1 \<and> list_ex (\<lambda>c. c > 127) text);
                 charWidth = (if isMathSymbol then fontSize * 0.7 else fontSize * 0.55);
                 textWidth = max (fontSize * 0.6) (real (length text) * charWidth)
             in Some \<lparr>minX = px (points stroke ! 0) - 1,
                      minY = py (points stroke ! 0) - fontSize * 0.85,
                      maxX = px (points stroke ! 0) + textWidth - 1,
                      maxY = py (points stroke ! 0) + fontSize * 0.15\<rparr>)
          else None)"

subsection \<open>Hit testing\<close>





subsection \<open>The bounding box, stated apart from the code\<close>

text \<open>
  The notions of the specification, written on their own and not through
  \<^verbatim>\<open>getStrokeBounds\<close>. The freehand strokes are those of the pen and the highlighter. A
  shape stroke, whose tag is \<^verbatim>\<open>shape-\<close> and a kind, has with its first two points the box
  that spans them, in whatever order they were drawn. A text stroke, whose tag is
  \<^verbatim>\<open>text:\<close> and a payload, has with its first point the box of the width estimate: the
  font size is four times the thickness and at least 14; a glyph is 0.7 of it wide for a
  payload of one code unit above \<^verbatim>\<open>0x7F\<close> and 0.55 otherwise; the width is the glyphs' or
  0.6 of the font size, whichever is more; the box starts 1 left of the anchor and reaches
  from 0.85 of the font size above it to 0.15 below. The specification names the
  estimate and not its numbers, which are the code's. No other stroke has a box.
\<close>

definition freehand :: "stroke \<Rightarrow> bool" where
  "freehand stroke = (tool stroke = lit ''pen'' \<or> tool stroke = lit ''highlighter'')"

definition between :: "real \<Rightarrow> real \<Rightarrow> real \<Rightarrow> bool" where
  "between a b v = (a \<le> v \<and> v \<le> b \<or> b \<le> v \<and> v \<le> a)"

definition corner_box :: "point \<Rightarrow> point \<Rightarrow> bounds" where
  "corner_box p q =
     \<lparr>minX = (if px p \<le> px q then px p else px q), minY = (if py p \<le> py q then py p else py q),
      maxX = (if px p \<le> px q then px q else px p), maxY = (if py p \<le> py q then py q else py p)\<rparr>"

definition font_size :: "real \<Rightarrow> real" where
  "font_size th = (if 4 * th < 14 then 14 else 4 * th)"

definition single_symbol :: "jsstring \<Rightarrow> bool" where
  "single_symbol payload = (\<exists>c. payload = [c] \<and> 128 \<le> c)"

definition text_width :: "real \<Rightarrow> jsstring \<Rightarrow> real" where
  "text_width th payload =
     (let glyph = (if single_symbol payload then 7 / 10 * font_size th
                   else 11 / 20 * font_size th);
          run = real (length payload) * glyph
      in if run < 6 / 10 * font_size th then 6 / 10 * font_size th else run)"

definition text_box :: "point \<Rightarrow> real \<Rightarrow> jsstring \<Rightarrow> bounds" where
  "text_box p th payload =
     \<lparr>minX = px p - 1, minY = py p - 17 / 20 * font_size th,
      maxX = px p - 1 + text_width th payload, maxY = py p + 3 / 20 * font_size th\<rparr>"

definition has_box :: "stroke \<Rightarrow> bounds \<Rightarrow> bool" where
  "has_box stroke b =
     ((\<exists>kind p q rest. tool stroke = lit ''shape-'' @ kind \<and> points stroke = p # q # rest
          \<and> b = corner_box p q)
      \<or> (\<exists>payload p rest. tool stroke = lit ''text:'' @ payload \<and> points stroke = p # rest
          \<and> b = text_box p (thickness stroke) payload))"


subsection \<open>Rubber-band selection\<close>

record rect =
  rectMinX :: real
  rectMinY :: real
  rectMaxX :: real
  rectMaxY :: real

definition rect_of :: "point \<Rightarrow> point \<Rightarrow> rect" where
  "rect_of start end' =
     \<lparr>rectMinX = min (px start) (px end'), rectMinY = min (py start) (py end'),
      rectMaxX = max (px start) (px end'), rectMaxY = max (py start) (py end')\<rparr>"

text \<open>The loop over the points of a pen or highlighter stroke, with its \<^verbatim>\<open>break\<close>.\<close>

fun rect_points_loop :: "rect \<Rightarrow> point list \<Rightarrow> bool" where
  "rect_points_loop r [] = False"
| "rect_points_loop r (p # ps) =
     (if px p \<ge> rectMinX r \<and> px p \<le> rectMaxX r \<and> py p \<ge> rectMinY r \<and> py p \<le> rectMaxY r
      then True else rect_points_loop r ps)"

text \<open>The value of \<^verbatim>\<open>isInside\<close> at the end of the loop body.\<close>

definition isInside :: "rect \<Rightarrow> stroke \<Rightarrow> bool" where
  "isInside r stroke =
     (if tool stroke = lit ''pen'' \<or> tool stroke = lit ''highlighter''
      then rect_points_loop r (points stroke)
      else (case getStrokeBounds (Some stroke) of
              None \<Rightarrow> False
            | Some b \<Rightarrow>
                (let strokeCenterX = (minX b + maxX b) / 2;
                     strokeCenterY = (minY b + maxY b) / 2;
                     centerIn = (strokeCenterX \<ge> rectMinX r \<and> strokeCenterX \<le> rectMaxX r
                                 \<and> strokeCenterY \<ge> rectMinY r \<and> strokeCenterY \<le> rectMaxY r)
                 in if centerIn then True
                    else (let overlapX = (minX b \<le> rectMaxX r \<and> maxX b \<ge> rectMinX r);
                              overlapY = (minY b \<le> rectMaxY r \<and> maxY b \<ge> rectMinY r)
                          in overlapX \<and> overlapY))))"

fun collect_strokes :: "rect \<Rightarrow> stroke list \<Rightarrow> string list \<Rightarrow> string list" where
  "collect_strokes r [] result = result"
| "collect_strokes r (stroke # rest) result =
     collect_strokes r rest (if isInside r stroke then result @ [id_s stroke] else result)"

definition findStrokesInRect :: "canvasStore \<Rightarrow> int \<Rightarrow> point \<Rightarrow> point \<Rightarrow> string list" where
  "findStrokesInRect state currentPage start end' =
     collect_strokes (rect_of start end') (getPageStrokes state currentPage) []"

text \<open>
  The rubber band is the rectangle between the two corners of the drag, in whatever order:
  a point is in it when each coordinate lies between the corners', and a box meets it
  when on each axis the box starts before the band ends and ends after the band starts.
\<close>

definition in_band :: "point \<Rightarrow> point \<Rightarrow> real \<Rightarrow> real \<Rightarrow> bool" where
  "in_band start end' a b = (between (px start) (px end') a \<and> between (py start) (py end') b)"

definition box_meets_band :: "point \<Rightarrow> point \<Rightarrow> bounds \<Rightarrow> bool" where
  "box_meets_band start end' b =
     ((minX b \<le> px start \<or> minX b \<le> px end') \<and> (px start \<le> maxX b \<or> px end' \<le> maxX b)
      \<and> (minY b \<le> py start \<or> minY b \<le> py end') \<and> (py start \<le> maxY b \<or> py end' \<le> maxY b))"

text \<open>
  The rule that the code applies: a freehand stroke by its sample points alone, any other
  stroke by its box.
\<close>

definition band_selects :: "point \<Rightarrow> point \<Rightarrow> stroke \<Rightarrow> bool" where
  "band_selects start end' stroke =
     (freehand stroke \<and> (\<exists>p \<in> set (points stroke). in_band start end' (px p) (py p))
      \<or> \<not> freehand stroke
        \<and> (\<exists>b. has_box stroke b
              \<and> (in_band start end' ((minX b + maxX b) / 2) ((minY b + maxY b) / 2)
                 \<or> box_meets_band start end' b)))"

text \<open>
  The rule as the specification words it, a three-way disjunction for every stroke, where
  the bounding box of a freehand stroke is the box that spans its points.
\<close>

fun envelope :: "point list \<Rightarrow> bounds option" where
  "envelope [] = None"
| "envelope (p # ps) =
     (case envelope ps of
        None \<Rightarrow> Some \<lparr>minX = px p, minY = py p, maxX = px p, maxY = py p\<rparr>
      | Some b \<Rightarrow> Some \<lparr>minX = min (px p) (minX b), minY = min (py p) (minY b),
                         maxX = max (px p) (maxX b), maxY = max (py p) (maxY b)\<rparr>)"

definition stroke_box :: "stroke \<Rightarrow> bounds \<Rightarrow> bool" where
  "stroke_box stroke b =
     (has_box stroke b \<or> freehand stroke \<and> envelope (points stroke) = Some b)"

definition claim_selects :: "point \<Rightarrow> point \<Rightarrow> stroke \<Rightarrow> bool" where
  "claim_selects start end' stroke =
     (freehand stroke \<and> (\<exists>p \<in> set (points stroke). in_band start end' (px p) (py p))
      \<or> (\<exists>b. stroke_box stroke b
            \<and> in_band start end' ((minX b + maxX b) / 2) ((minY b + maxY b) / 2))
      \<or> (\<exists>b. stroke_box stroke b \<and> box_meets_band start end' b))"

section \<open>Page prefetch\<close>










subsection \<open>Concrete inputs\<close>

text \<open>
  Stroke data as the viewer passes them to \<^verbatim>\<open>addStroke\<close>, readings of the clock and the
  random source, and stores reached from the initial store by the operations above.
\<close>

definition d_pen :: strokeData where
  "d_pen = \<lparr>sd_points = [\<lparr>px = 10, py = 10\<rparr>], sd_color = ''#18181b'', sd_thickness = 3,
     sd_opacity = 100, sd_tool = lit ''pen'', sd_pageId = 1, sd_fillColor = None,
     sd_backgroundColor = None\<rparr>"

definition d_dot :: strokeData where
  "d_dot = \<lparr>sd_points = [\<lparr>px = 25, py = 25\<rparr>], sd_color = ''#18181b'', sd_thickness = 3,
     sd_opacity = 100, sd_tool = lit ''pen'', sd_pageId = 1, sd_fillColor = None,
     sd_backgroundColor = None\<rparr>"

definition d_rect :: strokeData where
  "d_rect = \<lparr>sd_points = [\<lparr>px = 0, py = 0\<rparr>, \<lparr>px = 100, py = 50\<rparr>], sd_color = ''#3b82f6'',
     sd_thickness = 2, sd_opacity = 100, sd_tool = lit ''shape-rectangle'', sd_pageId = 1,
     sd_fillColor = None, sd_backgroundColor = None\<rparr>"

definition d_far :: strokeData where
  "d_far = \<lparr>sd_points = [\<lparr>px = 200, py = 200\<rparr>, \<lparr>px = 300, py = 300\<rparr>],
     sd_color = ''#3b82f6'', sd_thickness = 2, sd_opacity = 100, sd_tool = lit ''shape-circle'',
     sd_pageId = 1, sd_fillColor = None, sd_backgroundColor = None\<rparr>"

definition d_edge :: strokeData where
  "d_edge = \<lparr>sd_points = [\<lparr>px = 140, py = 140\<rparr>, \<lparr>px = 40, py = 40\<rparr>],
     sd_color = ''#3b82f6'', sd_thickness = 2, sd_opacity = 100, sd_tool = lit ''shape-line'',
     sd_pageId = 1, sd_fillColor = None, sd_backgroundColor = None\<rparr>"

definition d_back :: strokeData where
  "d_back = \<lparr>sd_points = [\<lparr>px = 100, py = 50\<rparr>, \<lparr>px = 0, py = 0\<rparr>], sd_color = ''#3b82f6'',
     sd_thickness = 2, sd_opacity = 100, sd_tool = lit ''shape-rectangle'', sd_pageId = 1,
     sd_fillColor = None, sd_backgroundColor = None\<rparr>"

definition d_note :: strokeData where
  "d_note = \<lparr>sd_points = [\<lparr>px = 10, py = 40\<rparr>], sd_color = ''#18181b'', sd_thickness = 4,
     sd_opacity = 100, sd_tool = lit ''text:Hi'', sd_pageId = 1, sd_fillColor = None,
     sd_backgroundColor = None\<rparr>"

definition d_diag :: strokeData where
  "d_diag = \<lparr>sd_points = [\<lparr>px = 0, py = 0\<rparr>, \<lparr>px = 100, py = 100\<rparr>], sd_color = ''#18181b'',
     sd_thickness = 3, sd_opacity = 100, sd_tool = lit ''pen'', sd_pageId = 1,
     sd_fillColor = None, sd_backgroundColor = None\<rparr>"

definition u_thick :: updates where
  "u_thick = \<lparr>u_points = None, u_thickness = Some 5, u_color = None, u_fillColor = None,
     u_backgroundColor = None\<rparr>"

definition r0 :: reading where
  "r0 = \<lparr>now_id = 1700000000000, rand36 = ''k3j9x0a1z'', now_ts = 1700000000000\<rparr>"

definition r1 :: reading where
  "r1 = \<lparr>now_id = 1700000000500, rand36 = ''m4n8b2v6c'', now_ts = 1700000000500\<rparr>"

definition r2 :: reading where
  "r2 = \<lparr>now_id = 1700000000900, rand36 = ''z1x5c7v3b'', now_ts = 1700000000900\<rparr>"

definition r3 :: reading where
  "r3 = \<lparr>now_id = 1700000000950, rand36 = ''h6g2f8d4s'', now_ts = 1700000000950\<rparr>"

definition env0 :: "nat \<Rightarrow> reading" where
  "env0 k = \<lparr>now_id = 1700000001000 + k, rand36 = ''q7w2e9r4t'', now_ts = 1700000001000 + k\<rparr>"

text \<open>A clock and a random source that give the readings \<open>r0\<close> once more.\<close>

definition env_same :: "nat \<Rightarrow> reading" where
  "env_same k = r0"

text \<open>One pen stroke added, then undone: the stroke list is empty, the redo stack is not.\<close>

definition stale_store :: canvasStore where
  "stale_store = snd (undo (addStroke d_pen r0 init_store))"

text \<open>
  A pen stroke added, selected and copied; then a rectangle added and undone. The pen
  stroke is the only stroke, it is selected and on the clipboard, and the redo stack holds
  one entry.
\<close>

definition sel_store :: canvasStore where
  "sel_store =
     snd (undo (addStroke d_rect r1
       (copySelected (selectStroke (Some (mk_id r0)) (addStroke d_pen r0 init_store)))))"

text \<open>A rectangle, and a pen stroke added after it.\<close>

definition two_store :: canvasStore where
  "two_store = addStroke d_pen r1 (addStroke d_rect r0 init_store)"


text \<open>
  A circle away from the origin, a pen dot at \<open>(25, 25)\<close>, a line drawn from \<open>(140, 140)\<close> back
  to \<open>(40, 40)\<close>, and a text at \<open>(10, 40)\<close>.
\<close>

definition band_store :: canvasStore where
  "band_store =
     addStroke d_note r3 (addStroke d_edge r2 (addStroke d_dot r1 (addStroke d_far r0 init_store)))"

text \<open>A pen stroke of two points, from \<open>(0, 0)\<close> to \<open>(100, 100)\<close>.\<close>

definition diag_store :: canvasStore where
  "diag_store = addStroke d_diag r0 init_store"



definition c40 :: point where
  "c40 = \<lparr>px = 40, py = 40\<rparr>"

definition c60 :: point where
  "c60 = \<lparr>px = 60, py = 60\<rparr>"


definition origin :: point where
  "origin = \<lparr>px = 0, py = 0\<rparr>"

definition corner50 :: point where
  "corner50 = \<lparr>px = 50, py = 50\<rparr>"






section \<open>The store: history, selection, clipboard\<close>

lemma mk_id_nonempty: "mk_id e \<noteq> []"
  by (simp add: mk_id_def)

lemma id_s_newStroke: "id_s (newStroke d e) = mk_id e"
  by (simp add: newStroke_def)

lemma ids_differ:
  "mk_id r0 \<noteq> mk_id r1" "mk_id r1 \<noteq> mk_id r0" "mk_id r0 \<noteq> mk_id r2" "mk_id r2 \<noteq> mk_id r0"
  "mk_id r1 \<noteq> mk_id r2" "mk_id r2 \<noteq> mk_id r1"
  by (simp_all add: mk_id_def r0_def r1_def r2_def decimal.simps digit_def)

lemma ids_differ_r3:
  "mk_id r0 \<noteq> mk_id r3" "mk_id r3 \<noteq> mk_id r0" "mk_id r1 \<noteq> mk_id r3" "mk_id r3 \<noteq> mk_id r1"
  "mk_id r2 \<noteq> mk_id r3" "mk_id r3 \<noteq> mk_id r2"
  by (simp_all add: mk_id_def r0_def r1_def r2_def r3_def decimal.simps digit_def)

lemma stale_store_fields:
  "strokes stale_store = [] \<and> undoStack stale_store = []
   \<and> redoStack stale_store = [[newStroke d_pen r0]]
   \<and> selectedStrokeId stale_store = None \<and> selectedStrokeIds stale_store = []
   \<and> clipboard stale_store = []"
  by (simp add: stale_store_def undo_def addStroke_def init_store_def)

lemma sel_store_fields:
  "strokes sel_store = [newStroke d_pen r0] \<and> undoStack sel_store = [[]]
   \<and> redoStack sel_store = [[newStroke d_pen r0, newStroke d_rect r1]]
   \<and> selectedStrokeId sel_store = Some (mk_id r0) \<and> selectedStrokeIds sel_store = [mk_id r0]
   \<and> clipboard sel_store = [newStroke d_pen r0]"
  by (simp add: sel_store_def undo_def addStroke_def copySelected_def selectStroke_def
      init_store_def mk_id_nonempty newStroke_def)

lemma deleted_store_fields:
  "strokes (deleteStroke (mk_id r0) sel_store) = []
   \<and> undoStack (deleteStroke (mk_id r0) sel_store) = [[], [newStroke d_pen r0]]
   \<and> redoStack (deleteStroke (mk_id r0) sel_store) = []
   \<and> selectedStrokeId (deleteStroke (mk_id r0) sel_store) = None
   \<and> selectedStrokeIds (deleteStroke (mk_id r0) sel_store) = []"
  by (simp add: deleteStroke_def sel_store_fields id_s_newStroke)

text \<open>
  C3. \<^verbatim>\<open>updateStroke\<close> with an id that no stroke has leaves the stroke list as it is, and
  still pushes one entry (the unchanged list) onto the undo stack and empties the redo
  stack. The operation has no failing branch.
\<close>

theorem updateStroke_missing_id:
  assumes "i \<notin> id_s ` set (strokes state)"
  shows "strokes (updateStroke i u state) = strokes state
       \<and> undoStack (updateStroke i u state) = undoStack state @ [strokes state]
       \<and> length (undoStack (updateStroke i u state)) = length (undoStack state) + 1
       \<and> redoStack (updateStroke i u state) = []"
proof -
  have "map (\<lambda>s. if id_s s = i then merge_updates s u else s) (strokes state) = strokes state"
    using assms by (intro map_idI) auto
  then show ?thesis by (simp add: updateStroke_def)
qed

theorem updateStroke_missing_id_witness:
  "mk_id r0 \<notin> id_s ` set (strokes (deleteStroke (mk_id r0) sel_store))
   \<and> strokes (updateStroke (mk_id r0) u_thick (deleteStroke (mk_id r0) sel_store)) = []
   \<and> undoStack (updateStroke (mk_id r0) u_thick (deleteStroke (mk_id r0) sel_store))
       = [[], [newStroke d_pen r0], []]
   \<and> redoStack (updateStroke (mk_id r0) u_thick (deleteStroke (mk_id r0) sel_store)) = []"
proof -
  have h: "mk_id r0 \<notin> id_s ` set (strokes (deleteStroke (mk_id r0) sel_store))"
    by (simp add: deleted_store_fields)
  show ?thesis
    using h updateStroke_missing_id [OF h, of u_thick]
    by (simp add: deleted_store_fields)
qed

text \<open>
  C10. \<^verbatim>\<open>undo\<close> and \<^verbatim>\<open>redo\<close> write \<^verbatim>\<open>strokes\<close>, \<^verbatim>\<open>undoStack\<close> and \<^verbatim>\<open>redoStack\<close> only: the
  selection, the clipboard and the current page are as before. So the selection can name
  a stroke that the undo has removed: after adding a stroke to the empty store, selecting
  it and undoing, the stroke list is empty and the selection still holds the id.
\<close>

theorem undo_redo_frame:
  "snd (undo state) = state\<lparr>strokes := strokes (snd (undo state)),
                             undoStack := undoStack (snd (undo state)),
                             redoStack := redoStack (snd (undo state))\<rparr>
   \<and> snd (redo state) = state\<lparr>strokes := strokes (snd (redo state)),
                               undoStack := undoStack (snd (redo state)),
                               redoStack := redoStack (snd (redo state))\<rparr>
   \<and> selectedStrokeId (snd (undo state)) = selectedStrokeId state
   \<and> selectedStrokeIds (snd (undo state)) = selectedStrokeIds state
   \<and> clipboard (snd (undo state)) = clipboard state
   \<and> currentPageId (snd (undo state)) = currentPageId state
   \<and> selectedStrokeId (snd (redo state)) = selectedStrokeId state
   \<and> selectedStrokeIds (snd (redo state)) = selectedStrokeIds state
   \<and> clipboard (snd (redo state)) = clipboard state
   \<and> currentPageId (snd (redo state)) = currentPageId state
   \<and> strokes (snd (undo (selectStroke (Some (mk_id e)) (addStroke d e init_store)))) = []
   \<and> selectedStrokeIds (snd (undo (selectStroke (Some (mk_id e)) (addStroke d e init_store))))
       = [mk_id e]
   \<and> selectedStrokeId (snd (undo (selectStroke (Some (mk_id e)) (addStroke d e init_store))))
       = Some (mk_id e)"
  by (simp add: undo_def redo_def selectStroke_def addStroke_def init_store_def mk_id_nonempty)

subsection \<open>Undo and redo\<close>

lemma butlast_snoc_nth: "xs \<noteq> [] \<Longrightarrow> butlast xs @ [xs ! (length xs - 1)] = xs"
  using append_butlast_last_id [of xs] by (simp add: last_conv_nth)

lemma redo_undo: "undoStack s \<noteq> [] \<Longrightarrow> snd (redo (snd (undo s))) = s"
  using butlast_snoc_nth [of "undoStack s"] by (simp add: undo_def redo_def nth_append)

lemma undo_n_noop: "undoStack s = [] \<Longrightarrow> undo_n n s = s"
  by (induction n) (simp_all add: undo_def)

lemma redo_n_noop: "redoStack s = [] \<Longrightarrow> redo_n n s = s"
  by (induction n) (simp_all add: redo_def)

lemma redo_n_Suc_swap: "redo_n (Suc n) s = snd (redo (redo_n n s))"
  by (induction n arbitrary: s) simp_all

lemma undo_n_add: "undo_n (a + b) s = undo_n b (undo_n a s)"
  by (induction a arbitrary: s) simp_all

lemma redo_n_add: "redo_n (a + b) s = redo_n b (redo_n a s)"
  by (induction a arbitrary: s) simp_all

lemma length_undoStack_undo:
  "length (undoStack (snd (undo s))) = length (undoStack s) - 1"
  by (simp add: undo_def)

lemma length_undoStack_undo_n:
  "length (undoStack (undo_n n s)) = length (undoStack s) - n"
  by (induction n arbitrary: s) (simp_all add: length_undoStack_undo)

lemma redo_n_undo_n_le:
  "n \<le> length (undoStack s) \<Longrightarrow> redo_n n (undo_n n s) = s"
proof (induction n arbitrary: s)
  case 0
  show ?case by simp
next
  case (Suc n)
  let ?t = "snd (undo s)"
  from Suc.prems have ne: "undoStack s \<noteq> []" by auto
  from Suc.prems have "n \<le> length (undoStack ?t)"
    by (simp add: length_undoStack_undo)
  then have "redo_n n (undo_n n ?t) = ?t" by (rule Suc.IH)
  then have "redo_n (Suc n) (undo_n (Suc n) s) = snd (redo ?t)"
    by (simp only: redo_n_Suc_swap undo_n.simps)
  also have "\<dots> = s" using ne by (rule redo_undo)
  finally show ?case .
qed

lemma redo_n_undo_n_empty:
  assumes "redoStack s = []"
  shows "redo_n n (undo_n n s) = s"
proof (cases "n \<le> length (undoStack s)")
  case True
  then show ?thesis by (rule redo_n_undo_n_le)
next
  case False
  define k where "k = length (undoStack s)"
  define m where "m = n - k"
  from False have n: "n = k + m" by (simp add: k_def m_def)
  have "undoStack (undo_n k s) = []"
    using length_undoStack_undo_n [of k s] by (simp add: k_def)
  then have "undo_n n s = undo_n k s"
    by (simp add: n undo_n_add undo_n_noop)
  moreover have "redo_n k (undo_n k s) = s"
    by (rule redo_n_undo_n_le) (simp add: k_def)
  ultimately show ?thesis
    using assms by (simp add: n redo_n_add redo_n_noop)
qed

lemma no_effect_id: "\<not> takes_effect a s \<Longrightarrow> apply_op a s = s"
  by (cases a) (simp_all add: deleteSelectedStrokes_def cutSelected_def duplicateSelected_def
      paste_def)

lemma effect_clears_redo: "takes_effect a s \<Longrightarrow> redoStack (apply_op a s) = []"
  by (cases a) (simp_all add: addStroke_def updateStroke_def deleteStroke_def clearPage_def
      deleteSelectedStrokes_def cutSelected_def duplicateSelected_def paste_def Let_def)

lemma no_effect_run: "\<not> some_effect as s \<Longrightarrow> run_ops as s = s"
proof (induction as arbitrary: s)
  case Nil
  show ?case by simp
next
  case (Cons a as)
  then have "apply_op a s = s" by (simp add: no_effect_id)
  with Cons show ?case by simp
qed

lemma some_effect_clears_redo: "some_effect as s \<Longrightarrow> redoStack (run_ops as s) = []"
proof (induction as arbitrary: s)
  case Nil
  then show ?case by simp
next
  case (Cons a as)
  show ?case
  proof (cases "some_effect as (apply_op a s)")
    case True
    then show ?thesis by (simp add: Cons.IH)
  next
    case False
    with Cons.prems have "takes_effect a s" by simp
    with False show ?thesis by (simp add: no_effect_run effect_clears_redo)
  qed
qed

text \<open>
  C1, as amended. After a sequence of \<open>N\<close> operations at least one of which takes effect,
  \<open>N\<close> calls of \<^verbatim>\<open>undo\<close> followed by \<open>N\<close> calls of \<^verbatim>\<open>redo\<close> give back the stroke list that the
  operations produced. For every store, \<^verbatim>\<open>undo\<close> and \<^verbatim>\<open>redo\<close> answer true exactly when their
  stack is not empty, and \<^verbatim>\<open>canUndo\<close> and \<^verbatim>\<open>canRedo\<close> answer false exactly when it is empty.
\<close>

theorem undo_redo_inverse:
  assumes "some_effect ops state"
  shows "strokes (redo_n (length ops) (undo_n (length ops) (run_ops ops state)))
           = strokes (run_ops ops state)
       \<and> (fst (undo t) \<longleftrightarrow> undoStack t \<noteq> [])
       \<and> (fst (redo t) \<longleftrightarrow> redoStack t \<noteq> [])
       \<and> (\<not> canUndo t \<longleftrightarrow> undoStack t = [])
       \<and> (\<not> canRedo t \<longleftrightarrow> redoStack t = [])"
proof -
  have "redoStack (run_ops ops state) = []"
    using assms by (rule some_effect_clears_redo)
  then have "redo_n (length ops) (undo_n (length ops) (run_ops ops state)) = run_ops ops state"
    by (rule redo_n_undo_n_empty)
  then show ?thesis
    by (simp add: undo_def redo_def canUndo_def canRedo_def)
qed

theorem undo_redo_inverse_witness:
  "some_effect [AddStroke d_pen r0, DeleteSelectedStrokes, ClearPage 1] init_store
   \<and> strokes (redo_n 3 (undo_n 3
        (run_ops [AddStroke d_pen r0, DeleteSelectedStrokes, ClearPage 1] init_store))) = []
   \<and> strokes (run_ops [AddStroke d_pen r0, DeleteSelectedStrokes, ClearPage 1] init_store) = []
   \<and> strokes (undo_n 1
        (run_ops [AddStroke d_pen r0, DeleteSelectedStrokes, ClearPage 1] init_store))
       = [newStroke d_pen r0]
   \<and> fst (undo (run_ops [AddStroke d_pen r0, DeleteSelectedStrokes, ClearPage 1] init_store))
   \<and> \<not> canRedo (run_ops [AddStroke d_pen r0, DeleteSelectedStrokes, ClearPage 1] init_store)"
proof -
  have h: "some_effect [AddStroke d_pen r0, DeleteSelectedStrokes, ClearPage 1] init_store"
    by simp
  have e: "strokes (run_ops [AddStroke d_pen r0, DeleteSelectedStrokes, ClearPage 1] init_store)
             = []
           \<and> undoStack (run_ops [AddStroke d_pen r0, DeleteSelectedStrokes, ClearPage 1]
                init_store) = [[], [newStroke d_pen r0]]
           \<and> redoStack (run_ops [AddStroke d_pen r0, DeleteSelectedStrokes, ClearPage 1]
                init_store) = []"
    by (simp add: addStroke_def deleteSelectedStrokes_def clearPage_def init_store_def
        newStroke_def d_pen_def)
  have u: "strokes (undo_n 1
        (run_ops [AddStroke d_pen r0, DeleteSelectedStrokes, ClearPage 1] init_store))
       = [newStroke d_pen r0]"
    using e by (simp add: undo_def)
  show ?thesis
    using h e u undo_redo_inverse [OF h,
        of "run_ops [AddStroke d_pen r0, DeleteSelectedStrokes, ClearPage 1] init_store"]
    by (simp add: numeral_3_eq_3)
qed

text \<open>
  C1 as stated fails when the operations are all skipped by their early return: the redo
  stack is not emptied, so a \<^verbatim>\<open>redo\<close> after a failed \<^verbatim>\<open>undo\<close> brings back an older stroke
  list. The store below has seen \<^verbatim>\<open>addStroke\<close> and \<^verbatim>\<open>undo\<close>; the one operation is a
  \<^verbatim>\<open>paste\<close> with an empty clipboard.
\<close>

theorem undo_redo_inverse_counterexample:
  "strokes (run_ops [Paste 1 None env0] stale_store) = []
   \<and> strokes (redo_n (Suc 0) (undo_n (Suc 0) (run_ops [Paste 1 None env0] stale_store)))
       = [newStroke d_pen r0]
   \<and> strokes (redo_n (Suc 0) (undo_n (Suc 0) (run_ops [Paste 1 None env0] stale_store)))
       \<noteq> strokes (run_ops [Paste 1 None env0] stale_store)"
  by (simp add: paste_def undo_def redo_def stale_store_fields)

subsection \<open>Edits and the history\<close>

text \<open>
  C2, as amended. \<^verbatim>\<open>addStroke\<close>, \<^verbatim>\<open>updateStroke\<close>, \<^verbatim>\<open>deleteStroke\<close> and \<^verbatim>\<open>clearPage\<close> always
  push the strokes as they were onto the undo stack and empty the redo stack.
  \<^verbatim>\<open>deleteSelectedStrokes\<close>, \<^verbatim>\<open>cutSelected\<close> and \<^verbatim>\<open>duplicateSelected\<close> do so when the selection
  is not empty, \<^verbatim>\<open>paste\<close> when the clipboard is not empty; otherwise they return at once
  and the store, its redo stack included, is unchanged.
\<close>

theorem mutating_ops_history:
  "history_pushed state (addStroke d e state)
   \<and> history_pushed state (updateStroke i u state)
   \<and> history_pushed state (deleteStroke i state)
   \<and> history_pushed state (clearPage pid state)
   \<and> (selectedStrokeIds state \<noteq> [] \<longrightarrow>
        history_pushed state (deleteSelectedStrokes state)
        \<and> history_pushed state (cutSelected state)
        \<and> history_pushed state (duplicateSelected pid env state))
   \<and> (clipboard state \<noteq> [] \<longrightarrow> history_pushed state (paste pid offset env state))
   \<and> (selectedStrokeIds state = [] \<longrightarrow>
        deleteSelectedStrokes state = state \<and> cutSelected state = state
        \<and> duplicateSelected pid env state = state)
   \<and> (clipboard state = [] \<longrightarrow> paste pid offset env state = state)"
  by (simp add: history_pushed_def addStroke_def updateStroke_def deleteStroke_def clearPage_def
      deleteSelectedStrokes_def cutSelected_def duplicateSelected_def paste_def Let_def)

theorem mutating_ops_history_witness:
  "selectedStrokeIds sel_store \<noteq> [] \<and> clipboard sel_store \<noteq> [] \<and> redoStack sel_store \<noteq> []
   \<and> history_pushed sel_store (deleteSelectedStrokes sel_store)
   \<and> history_pushed sel_store (cutSelected sel_store)
   \<and> history_pushed sel_store (duplicateSelected 1 env0 sel_store)
   \<and> history_pushed sel_store (paste 1 None env0 sel_store)
   \<and> redoStack (paste 1 None env0 sel_store) = []
   \<and> selectedStrokeIds stale_store = [] \<and> clipboard stale_store = []
   \<and> deleteSelectedStrokes stale_store = stale_store
   \<and> cutSelected stale_store = stale_store
   \<and> duplicateSelected 1 env0 stale_store = stale_store
   \<and> paste 1 None env0 stale_store = stale_store"
proof -
  have a: "selectedStrokeIds sel_store \<noteq> [] \<and> clipboard sel_store \<noteq> []
           \<and> redoStack sel_store \<noteq> []"
    by (simp add: sel_store_fields)
  have b: "selectedStrokeIds stale_store = [] \<and> clipboard stale_store = []"
    by (simp add: stale_store_fields)
  show ?thesis
    using a b mutating_ops_history [of sel_store d_pen r0 "mk_id r0" u_thick 1 env0 None]
      mutating_ops_history [of stale_store d_pen r0 "mk_id r0" u_thick 1 env0 None]
    by (simp add: history_pushed_def)
qed

text \<open>
  C2 as stated fails for \<^verbatim>\<open>paste\<close> with an empty clipboard: the redo stack left by an
  \<^verbatim>\<open>undo\<close> is still there after the call.
\<close>

theorem mutating_ops_history_counterexample:
  "redoStack stale_store \<noteq> []
   \<and> \<not> history_pushed stale_store (paste 1 None env0 stale_store)
   \<and> redoStack (paste 1 None env0 stale_store) \<noteq> []"
  by (simp add: history_pushed_def paste_def stale_store_fields)

text \<open>
  C4, as amended. \<^verbatim>\<open>deleteStroke\<close> with an id that no stroke has leaves the stroke list as
  it is, and still pushes one entry onto the undo stack and empties the redo stack.
  \<^verbatim>\<open>deleteSelectedStrokes\<close> with an empty selection changes nothing. So when
  \<^verbatim>\<open>deleteStroke\<close> has removed the only selected stroke, a following
  \<^verbatim>\<open>deleteSelectedStrokes\<close> adds no entry to the one of the first deletion. No operation
  has a failing branch.
\<close>

theorem delete_missing:
  "(i \<notin> id_s ` set (strokes state) \<longrightarrow>
       strokes (deleteStroke i state) = strokes state
       \<and> undoStack (deleteStroke i state) = undoStack state @ [strokes state]
       \<and> redoStack (deleteStroke i state) = [])
   \<and> (selectedStrokeIds state = [] \<longrightarrow> deleteSelectedStrokes state = state)
   \<and> (set (selectedStrokeIds state) \<subseteq> {i} \<longrightarrow>
       deleteSelectedStrokes (deleteStroke i state) = deleteStroke i state
       \<and> undoStack (deleteSelectedStrokes (deleteStroke i state))
           = undoStack state @ [strokes state])"
proof -
  have "set (selectedStrokeIds state) \<subseteq> {i} \<Longrightarrow>
          filter (\<lambda>sid. sid \<noteq> i) (selectedStrokeIds state) = []"
    by (auto simp: filter_empty_conv)
  moreover have "i \<notin> id_s ` set (strokes state) \<Longrightarrow>
          filter (\<lambda>s. id_s s \<noteq> i) (strokes state) = strokes state"
    by (auto simp: filter_id_conv)
  ultimately show ?thesis
    by (simp add: deleteStroke_def deleteSelectedStrokes_def)
qed

theorem delete_missing_witness:
  "set (selectedStrokeIds sel_store) \<subseteq> {mk_id r0}
   \<and> mk_id r0 \<notin> id_s ` set (strokes (deleteStroke (mk_id r0) sel_store))
   \<and> selectedStrokeIds (deleteStroke (mk_id r0) sel_store) = []
   \<and> undoStack (deleteStroke (mk_id r0) sel_store) = [[], [newStroke d_pen r0]]
   \<and> undoStack (deleteSelectedStrokes (deleteStroke (mk_id r0) sel_store))
       = [[], [newStroke d_pen r0]]
   \<and> undoStack (deleteStroke (mk_id r0) (deleteStroke (mk_id r0) sel_store))
       = [[], [newStroke d_pen r0], []]"
proof -
  have a: "set (selectedStrokeIds sel_store) \<subseteq> {mk_id r0}"
    by (simp add: sel_store_fields)
  have b: "mk_id r0 \<notin> id_s ` set (strokes (deleteStroke (mk_id r0) sel_store))"
    by (simp add: deleted_store_fields)
  show ?thesis
    using a b delete_missing [of "mk_id r0" sel_store]
      delete_missing [of "mk_id r0" "deleteStroke (mk_id r0) sel_store"]
    by (simp add: deleted_store_fields)
qed

text \<open>
  C4 as stated fails for \<^verbatim>\<open>deleteStroke\<close>: called a second time with the id of the stroke it
  has removed, it pushes a second entry.
\<close>

theorem delete_missing_counterexample:
  "mk_id r0 \<notin> id_s ` set (strokes (deleteStroke (mk_id r0) sel_store))
   \<and> undoStack (deleteStroke (mk_id r0) sel_store) = [[], [newStroke d_pen r0]]
   \<and> undoStack (deleteStroke (mk_id r0) (deleteStroke (mk_id r0) sel_store))
       = [[], [newStroke d_pen r0], []]"
proof -
  have "undoStack (deleteStroke (mk_id r0) (deleteStroke (mk_id r0) sel_store))
          = [[], [newStroke d_pen r0], []]"
    by (simp add: deleteStroke_def [of _ "deleteStroke (mk_id r0) sel_store"]
        deleted_store_fields)
  then show ?thesis by (simp add: deleted_store_fields)
qed

subsection \<open>Selection\<close>

text \<open>
  C8, as amended. After \<^verbatim>\<open>selectStroke\<close> (with \<^verbatim>\<open>null\<close> or an id that is not the empty
  string), \<^verbatim>\<open>selectStrokes\<close>, \<^verbatim>\<open>removeFromSelection\<close> and \<^verbatim>\<open>clearSelection\<close> the primary id
  is the first element of the selection, or \<^verbatim>\<open>null\<close> when the selection is empty.
  \<^verbatim>\<open>addToSelection\<close> of an id that is not selected appends it and makes it the primary id,
  so the primary id is then the last element; of an id that is selected, it changes
  nothing.
\<close>

theorem selection_primary:
  "(i \<noteq> Some [] \<longrightarrow> primary_is_first (selectStroke i state))
   \<and> primary_is_first (selectStrokes ids state)
   \<and> primary_is_first (removeFromSelection j state)
   \<and> primary_is_first (clearSelection state)
   \<and> (k \<notin> set (selectedStrokeIds state) \<longrightarrow>
        selectedStrokeId (addToSelection k state) = Some k
        \<and> selectedStrokeIds (addToSelection k state) = selectedStrokeIds state @ [k])
   \<and> (k \<in> set (selectedStrokeIds state) \<longrightarrow> addToSelection k state = state)"
  by (auto simp: primary_is_first_def selectStroke_def selectStrokes_def removeFromSelection_def
      clearSelection_def addToSelection_def Let_def split: option.splits list.splits)

theorem selection_primary_witness:
  "Some (mk_id r0) \<noteq> Some [] \<and> primary_is_first (selectStroke (Some (mk_id r0)) two_store)
   \<and> mk_id r1 \<notin> set (selectedStrokeIds sel_store)
   \<and> selectedStrokeId (addToSelection (mk_id r1) sel_store) = Some (mk_id r1)
   \<and> selectedStrokeIds (addToSelection (mk_id r1) sel_store) = [mk_id r0, mk_id r1]
   \<and> mk_id r0 \<in> set (selectedStrokeIds sel_store)
   \<and> addToSelection (mk_id r0) sel_store = sel_store"
proof -
  have a: "mk_id r1 \<notin> set (selectedStrokeIds sel_store)
           \<and> mk_id r0 \<in> set (selectedStrokeIds sel_store)
           \<and> selectedStrokeIds sel_store = [mk_id r0]"
    by (simp add: sel_store_fields ids_differ)
  show ?thesis
    using a
      selection_primary [of "Some (mk_id r0)" two_store "[]" "mk_id r0" "mk_id r1"]
      selection_primary [of "Some (mk_id r0)" sel_store "[]" "mk_id r0" "mk_id r1"]
      selection_primary [of "Some (mk_id r0)" sel_store "[]" "mk_id r0" "mk_id r0"]
    by (simp add: mk_id_nonempty ids_differ)
qed

text \<open>
  C8 as stated fails for \<^verbatim>\<open>addToSelection\<close>: with \<^verbatim>\<open>a\<close> selected, adding \<^verbatim>\<open>b\<close> gives the
  selection \<^verbatim>\<open>[a, b]\<close> with primary id \<^verbatim>\<open>b\<close>.
\<close>

theorem selection_primary_counterexample:
  "primary_is_first (selectStroke (Some (mk_id r0)) two_store)
   \<and> selectedStrokeIds (addToSelection (mk_id r1) (selectStroke (Some (mk_id r0)) two_store))
       = [mk_id r0, mk_id r1]
   \<and> selectedStrokeId (addToSelection (mk_id r1) (selectStroke (Some (mk_id r0)) two_store))
       = Some (mk_id r1)
   \<and> \<not> primary_is_first (addToSelection (mk_id r1) (selectStroke (Some (mk_id r0)) two_store))"
  by (simp add: primary_is_first_def addToSelection_def selectStroke_def mk_id_nonempty
      ids_differ)

subsection \<open>Paste\<close>

lemma copy_all_indices:
  "copy_all pid off env src = map (\<lambda>k. copy_stroke pid off (env k) (src ! k)) [0..<length src]"
  by (rule nth_equalityI) (simp_all add: copy_all_def nth_enumerate_eq)

lemma translate_fun: "translate off = (\<lambda>p. \<lparr>px = px p + px off, py = py p + py off\<rparr>)"
  by (rule ext) (simp add: translate_def)

text \<open>
  C5, as amended. With a clipboard that is not empty, \<^verbatim>\<open>paste\<close> appends one copy of each
  clipboard stroke, in order: its points moved by the offset (by \<open>(20, 20)\<close> when none is
  given), its page the given one, its id and timestamp newly made from the clock and the
  random source and not compared with the ids in use. The selection becomes the ids of
  the copies, the primary id the first of them. When no stroke has one of the new ids, the
  selection names exactly the copies; when moreover the old ids are distinct and the new
  ones are, all ids are distinct after the paste.
\<close>

theorem paste_translated_copies:
  assumes "clipboard state \<noteq> []"
  shows "strokes (paste pid offset env state)
           = strokes state
             @ map (\<lambda>k. (clipboard state ! k)
                    \<lparr>id_s := mk_id (env k), timestamp := now_ts (env k), pageId := pid,
                     points := map (\<lambda>p. \<lparr>px = px p + px (case offset of None \<Rightarrow> \<lparr>px = 20, py = 20\<rparr>
                                                                 | Some v \<Rightarrow> v),
                                          py = py p + py (case offset of None \<Rightarrow> \<lparr>px = 20, py = 20\<rparr>
                                                                 | Some v \<Rightarrow> v)\<rparr>)
                                   (points (clipboard state ! k))\<rparr>)
                 [0..<length (clipboard state)]
       \<and> selectedStrokeIds (paste pid offset env state)
           = map (\<lambda>k. mk_id (env k)) [0..<length (clipboard state)]
       \<and> selectedStrokeId (paste pid offset env state) = Some (mk_id (env 0))
       \<and> ((\<forall>k<length (clipboard state). mk_id (env k) \<notin> id_s ` set (strokes state)) \<longrightarrow>
            selection_strokes (paste pid offset env state)
              = drop (length (strokes state)) (strokes (paste pid offset env state)))
       \<and> ((\<forall>k<length (clipboard state). mk_id (env k) \<notin> id_s ` set (strokes state))
            \<and> distinct (map id_s (strokes state))
            \<and> distinct (map (\<lambda>k. mk_id (env k)) [0..<length (clipboard state)]) \<longrightarrow>
            distinct (map id_s (strokes (paste pid offset env state))))"
proof -
  define off where "off = (case offset of None \<Rightarrow> \<lparr>px = 20, py = 20\<rparr> | Some v \<Rightarrow> v)"
  define new where "new = copy_all pid off env (clipboard state)"
  have hd: "first_id_or_null new = Some (mk_id (env 0))"
    using assms
    by (cases "clipboard state")
       (simp_all add: new_def copy_all_def first_id_or_null_def copy_stroke_def mk_id_nonempty)
  have ids: "map id_s new = map (\<lambda>k. mk_id (env k)) [0..<length (clipboard state)]"
    by (simp add: new_def copy_all_indices copy_stroke_def comp_def)
  have new_eq: "new = map (\<lambda>k. (clipboard state ! k)
                      \<lparr>id_s := mk_id (env k), timestamp := now_ts (env k), pageId := pid,
                       points := map (\<lambda>p. \<lparr>px = px p + px off, py = py p + py off\<rparr>)
                                     (points (clipboard state ! k))\<rparr>)
                   [0..<length (clipboard state)]"
    by (simp add: new_def copy_all_indices copy_stroke_def translate_fun)
  have p: "paste pid offset env state
             = state\<lparr>strokes := strokes state @ new,
                     undoStack := undoStack state @ [strokes state],
                     redoStack := [],
                     selectedStrokeIds := map id_s new,
                     selectedStrokeId := first_id_or_null new\<rparr>"
    using assms
    by (cases offset) (simp_all add: paste_def Let_def default_offset_def new_def off_def)
  have str: "strokes (paste pid offset env state) = strokes state @ new"
    and sel: "selectedStrokeIds (paste pid offset env state) = map id_s new"
    and prim: "selectedStrokeId (paste pid offset env state) = Some (mk_id (env 0))"
    by (simp_all add: p hd)
  have named: "selection_strokes (paste pid offset env state) = new"
    if fresh: "\<forall>k<length (clipboard state). mk_id (env k) \<notin> id_s ` set (strokes state)"
  proof -
    have "filter (\<lambda>s. id_s s \<in> set (map id_s new)) new = new"
      by (simp add: filter_id_conv)
    moreover have "filter (\<lambda>s. id_s s \<in> set (map id_s new)) (strokes state) = []"
      using fresh by (fastforce simp: filter_empty_conv ids image_iff)
    ultimately show ?thesis
      by (simp add: selection_strokes_def str sel)
  qed
  have dist: "distinct (map id_s (strokes (paste pid offset env state)))"
    if "\<forall>k<length (clipboard state). mk_id (env k) \<notin> id_s ` set (strokes state)"
      "distinct (map id_s (strokes state))"
      "distinct (map (\<lambda>k. mk_id (env k)) [0..<length (clipboard state)])"
    using that by (fastforce simp: str ids image_iff)
  have "strokes (paste pid offset env state)
           = strokes state
             @ map (\<lambda>k. (clipboard state ! k)
                      \<lparr>id_s := mk_id (env k), timestamp := now_ts (env k), pageId := pid,
                       points := map (\<lambda>p. \<lparr>px = px p + px off, py = py p + py off\<rparr>)
                                     (points (clipboard state ! k))\<rparr>)
                   [0..<length (clipboard state)]"
    using str new_eq by simp
  moreover have "selectedStrokeIds (paste pid offset env state)
           = map (\<lambda>k. mk_id (env k)) [0..<length (clipboard state)]"
    using sel ids by simp
  moreover have "(\<forall>k<length (clipboard state). mk_id (env k) \<notin> id_s ` set (strokes state)) \<longrightarrow>
            selection_strokes (paste pid offset env state)
              = drop (length (strokes state)) (strokes (paste pid offset env state))"
    using named by (simp add: str)
  ultimately show ?thesis
    using prim dist unfolding off_def by blast
qed

text \<open>
  A stroke of one point at \<open>(10, 10)\<close>, pasted with the offset \<open>(20, 20)\<close>, is at \<open>(30, 30)\<close>;
  with readings of its own its id is new, and the selection names the copy alone.
\<close>

theorem paste_translated_copies_witness:
  "clipboard sel_store \<noteq> []
   \<and> points (newStroke d_pen r0) = [\<lparr>px = 10, py = 10\<rparr>]
   \<and> strokes (paste 1 None env0 sel_store)
       = [newStroke d_pen r0,
          (newStroke d_pen r0)\<lparr>id_s := mk_id (env0 0), timestamp := now_ts (env0 0), pageId := 1,
              points := [\<lparr>px = 30, py = 30\<rparr>]\<rparr>]
   \<and> strokes (paste 1 (Some \<lparr>px = 20, py = 20\<rparr>) env0 sel_store)
       = [newStroke d_pen r0,
          (newStroke d_pen r0)\<lparr>id_s := mk_id (env0 0), timestamp := now_ts (env0 0), pageId := 1,
              points := [\<lparr>px = 30, py = 30\<rparr>]\<rparr>]
   \<and> selectedStrokeIds (paste 1 None env0 sel_store) = [mk_id (env0 0)]
   \<and> selectedStrokeId (paste 1 None env0 sel_store) = Some (mk_id (env0 0))
   \<and> mk_id (env0 0) = ''stroke-1700000001000-q7w2e9r4t''
   \<and> mk_id (env0 0) \<noteq> mk_id r0
   \<and> selection_strokes (paste 1 None env0 sel_store)
       = [(newStroke d_pen r0)\<lparr>id_s := mk_id (env0 0), timestamp := now_ts (env0 0),
              pageId := 1, points := [\<lparr>px = 30, py = 30\<rparr>]\<rparr>]
   \<and> distinct (map id_s (strokes (paste 1 None env0 sel_store)))"
proof -
  have h: "clipboard sel_store \<noteq> []"
    by (simp add: sel_store_fields)
  have c: "points (newStroke d_pen r0) = [\<lparr>px = 10, py = 10\<rparr>]"
    by (simp add: newStroke_def d_pen_def)
  have i: "mk_id (env0 0) = ''stroke-1700000001000-q7w2e9r4t'' \<and> mk_id (env0 0) \<noteq> mk_id r0"
    by (simp add: mk_id_def env0_def r0_def decimal.simps digit_def)
  have n: "mk_id (env0 0) \<noteq> mk_id r0" "mk_id r0 \<noteq> mk_id (env0 0)"
    using i by auto
  have p: "strokes (paste 1 None env0 sel_store)
       = [newStroke d_pen r0,
          (newStroke d_pen r0)\<lparr>id_s := mk_id (env0 0), timestamp := now_ts (env0 0), pageId := 1,
              points := [\<lparr>px = 30, py = 30\<rparr>]\<rparr>]
   \<and> strokes (paste 1 (Some \<lparr>px = 20, py = 20\<rparr>) env0 sel_store)
       = [newStroke d_pen r0,
          (newStroke d_pen r0)\<lparr>id_s := mk_id (env0 0), timestamp := now_ts (env0 0), pageId := 1,
              points := [\<lparr>px = 30, py = 30\<rparr>]\<rparr>]
   \<and> selectedStrokeIds (paste 1 None env0 sel_store) = [mk_id (env0 0)]
   \<and> selectedStrokeId (paste 1 None env0 sel_store) = Some (mk_id (env0 0))
   \<and> selection_strokes (paste 1 None env0 sel_store)
       = [(newStroke d_pen r0)\<lparr>id_s := mk_id (env0 0), timestamp := now_ts (env0 0),
              pageId := 1, points := [\<lparr>px = 30, py = 30\<rparr>]\<rparr>]
   \<and> distinct (map id_s (strokes (paste 1 None env0 sel_store)))"
    using c paste_translated_copies [OF h, of 1 None env0]
      paste_translated_copies [OF h, of 1 "Some \<lparr>px = 20, py = 20\<rparr>" env0]
    by (simp add: sel_store_fields id_s_newStroke n)
  from h c p i show ?thesis by blast
qed

text \<open>
  C5 as stated fails where the clock and the random source repeat themselves: the copy
  then has the id of the stroke it was copied from, which is not a fresh one, and the
  selection names both strokes and not the pasted one alone.
\<close>

theorem paste_translated_copies_counterexample:
  "map id_s (strokes sel_store) = [mk_id r0]
   \<and> map id_s (strokes (paste 1 None env_same sel_store)) = [mk_id r0, mk_id r0]
   \<and> \<not> distinct (map id_s (strokes (paste 1 None env_same sel_store)))
   \<and> selectedStrokeIds (paste 1 None env_same sel_store) = [mk_id r0]
   \<and> selection_strokes (paste 1 None env_same sel_store)
       = strokes (paste 1 None env_same sel_store)
   \<and> length (selection_strokes (paste 1 None env_same sel_store)) = 2"
  by (simp add: selection_strokes_def paste_def Let_def copy_all_def copy_stroke_def
      env_same_def sel_store_fields id_s_newStroke)

section \<open>Hit testing and rubber-band selection\<close>

subsection \<open>The box of the code is the box of the specification\<close>

lemma startsWith_iff: "startsWith t p \<longleftrightarrow> (\<exists>rest. t = p @ rest)"
proof
  assume "startsWith t p"
  then have "t = p @ drop (length p) t"
    by (metis startsWith_def append_take_drop_id)
  then show "\<exists>rest. t = p @ rest" ..
next
  assume "\<exists>rest. t = p @ rest"
  then show "startsWith t p" by (auto simp: startsWith_def)
qed

lemma replace_first_prefix: "p \<noteq> [] \<Longrightarrow> replace_first p [] (p @ rest) = rest"
  by (cases p) simp_all

lemma shape_not_text: "lit ''shape-'' @ kind \<noteq> lit ''text:'' @ payload"
  by (simp add: lit_def)

lemma single_symbol_iff:
  "single_symbol payload \<longleftrightarrow> length payload = 1 \<and> list_ex (\<lambda>c. c > 127) payload"
  by (cases payload) (auto simp: single_symbol_def)

lemma text_box_code_form:
  "text_box p th payload =
     (let fontSize = max 14 (th * 4);
          isMathSymbol = (length payload = 1 \<and> list_ex (\<lambda>c. c > 127) payload);
          charWidth = (if isMathSymbol then fontSize * 0.7 else fontSize * 0.55);
          textWidth = max (fontSize * 0.6) (real (length payload) * charWidth)
      in \<lparr>minX = px p - 1, minY = py p - fontSize * 0.85,
          maxX = px p + textWidth - 1, maxY = py p + fontSize * 0.15\<rparr>)"
proof -
  define F where "F = max 14 (th * 4)"
  have f: "font_size th = F"
    by (simp add: font_size_def F_def max_def mult.commute)
  have w: "text_width th payload
             = max (F * 0.6) (real (length payload)
                 * (if length payload = 1 \<and> list_ex (\<lambda>c. c > 127) payload
                    then F * 0.7 else F * 0.55))"
    by (simp add: text_width_def f single_symbol_iff Let_def max_def)
  show ?thesis
    unfolding Let_def F_def [symmetric]
    by (simp add: text_box_def f w)
qed

lemma text_bounds:
  assumes "tool stroke = lit ''text:'' @ payload" "points stroke = p # rest"
  shows "getStrokeBounds (Some stroke) = Some (text_box p (thickness stroke) payload)"
proof -
  have s: "startsWith (tool stroke) (lit ''text:'')" "\<not> startsWith (tool stroke) (lit ''shape-'')"
    using assms(1) by (simp_all add: startsWith_def lit_def)
  have r: "replace_first (lit ''text:'') [] (tool stroke) = payload"
    using assms(1) by (simp add: replace_first_prefix lit_def)
  show ?thesis
    using assms(2) s
    by (simp add: getStrokeBounds_def r text_box_code_form Let_def)
qed

lemma shape_bounds:
  assumes "tool stroke = lit ''shape-'' @ kind" "points stroke = p # q # rest"
  shows "getStrokeBounds (Some stroke) = Some (corner_box p q)"
proof -
  have "startsWith (tool stroke) (lit ''shape-'')"
    using assms(1) by (simp add: startsWith_def)
  then show ?thesis
    using assms(2) by (simp add: getStrokeBounds_def corner_box_def min_def max_def)
qed

lemma has_box_iff: "getStrokeBounds (Some stroke) = Some b \<longleftrightarrow> has_box stroke b"
proof
  assume g: "getStrokeBounds (Some stroke) = Some b"
  show "has_box stroke b"
  proof (cases "startsWith (tool stroke) (lit ''shape-'') \<and> length (points stroke) \<ge> 2")
    case True
    then obtain kind where k: "tool stroke = lit ''shape-'' @ kind"
      by (auto simp: startsWith_iff)
    from True obtain p q rest where ps: "points stroke = p # q # rest"
      by (cases "points stroke"; cases "tl (points stroke)") auto
    from g shape_bounds [OF k ps] have "b = corner_box p q" by simp
    with k ps show ?thesis by (auto simp: has_box_def)
  next
    case False
    with g have t: "startsWith (tool stroke) (lit ''text:'')" and n: "points stroke \<noteq> []"
      by (auto simp: getStrokeBounds_def split: if_splits)
    then obtain payload where k: "tool stroke = lit ''text:'' @ payload"
      by (auto simp: startsWith_iff)
    from n obtain p rest where ps: "points stroke = p # rest"
      by (cases "points stroke") auto
    from g text_bounds [OF k ps] have "b = text_box p (thickness stroke) payload" by simp
    with k ps show ?thesis by (auto simp: has_box_def)
  qed
next
  assume "has_box stroke b"
  then show "getStrokeBounds (Some stroke) = Some b"
    by (auto simp: has_box_def shape_bounds text_bounds)
qed


lemma freehand_no_box: "freehand stroke \<Longrightarrow> \<not> has_box stroke b"
  by (auto simp: freehand_def has_box_def lit_def)

subsection \<open>Hit testing\<close>










lemma box_note:
  "has_box (newStroke d_note r) b
     \<longleftrightarrow> b = \<lparr>minX = 9, minY = 132 / 5, maxX = 133 / 5, maxY = 212 / 5\<rparr>"
  by (auto simp: has_box_iff [symmetric] getStrokeBounds_def newStroke_def d_note_def
      startsWith_def lit_def Let_def)

lemma not_freehand:
  "\<not> freehand (newStroke d_rect r)" "\<not> freehand (newStroke d_back r)"
  "\<not> freehand (newStroke d_note r)" "\<not> freehand (newStroke d_far r)"
  "\<not> freehand (newStroke d_edge r)"
  by (simp_all add: freehand_def newStroke_def d_rect_def d_back_def d_note_def d_far_def
      d_edge_def lit_def)

lemma is_freehand:
  "freehand (newStroke d_pen r)" "freehand (newStroke d_dot r)" "freehand (newStroke d_diag r)"
  by (simp_all add: freehand_def newStroke_def d_pen_def d_dot_def d_diag_def)



subsection \<open>Rubber-band selection\<close>

lemma between_min_max: "between a b v \<longleftrightarrow> min a b \<le> v \<and> v \<le> max a b"
  by (auto simp: between_def min_def max_def)

lemma rect_points_loop_iff:
  "rect_points_loop (rect_of start end') ps
     \<longleftrightarrow> (\<exists>p \<in> set ps. in_band start end' (px p) (py p))"
  by (induction ps) (auto simp: in_band_def between_min_max rect_of_def)

lemma isInside_iff: "isInside (rect_of start end') stroke \<longleftrightarrow> band_selects start end' stroke"
proof (cases "freehand stroke")
  case True
  then show ?thesis
    using freehand_no_box [OF True]
    by (simp add: isInside_def band_selects_def freehand_def rect_points_loop_iff)
next
  case False
  then show ?thesis
    by (cases "getStrokeBounds (Some stroke)")
       (auto simp: isInside_def band_selects_def freehand_def has_box_iff [symmetric]
          in_band_def between_min_max box_meets_band_def rect_of_def Let_def
          le_max_iff_disj min_le_iff_disj)
qed

lemma band_selects_claim: "band_selects start end' stroke \<Longrightarrow> claim_selects start end' stroke"
  by (auto simp: band_selects_def claim_selects_def stroke_box_def)

lemma collect_strokes_filter:
  "collect_strokes r ss acc = acc @ map id_s (filter (isInside r) ss)"
  by (induction ss arbitrary: acc) simp_all

text \<open>
  C7, as amended. \<^verbatim>\<open>findStrokesInRect\<close> answers, in page order, the ids of the strokes of
  the page that the rubber band selects: a pen or highlighter stroke when one of its
  sample points is in the band, and by nothing else; any other stroke when it has a
  bounding box (a shape of two points, a text) whose centre is in the band or which
  overlaps the band on both axes. The band is the rectangle between the two corners of
  the drag in either order. Every stroke so selected satisfies the three-way rule of the
  specification.
\<close>

theorem rect_select_three_rules:
  "findStrokesInRect state currentPage start end'
     = map id_s (filter (band_selects start end') (getPageStrokes state currentPage))
   \<and> (sid \<in> set (findStrokesInRect state currentPage start end')
        \<longleftrightarrow> (\<exists>s \<in> set (getPageStrokes state currentPage).
               id_s s = sid \<and> band_selects start end' s))
   \<and> (band_selects start end' stroke \<longrightarrow> claim_selects start end' stroke)"
proof -
  have "isInside (rect_of start end') = band_selects start end'"
    by (rule ext) (rule isInside_iff)
  then have "findStrokesInRect state currentPage start end'
     = map id_s (filter (band_selects start end') (getPageStrokes state currentPage))"
    by (simp add: findStrokesInRect_def collect_strokes_filter)
  then show ?thesis
    using band_selects_claim [of start end' stroke] by auto
qed

lemma page_band_store:
  "getPageStrokes band_store 1
     = [newStroke d_far r0, newStroke d_dot r1, newStroke d_edge r2, newStroke d_note r3]"
  by (simp add: getPageStrokes_def band_store_def addStroke_def init_store_def)
     (simp add: newStroke_def d_far_def d_dot_def d_edge_def d_note_def)

lemma box_far:
  "has_box (newStroke d_far r) b \<longleftrightarrow> b = \<lparr>minX = 200, minY = 200, maxX = 300, maxY = 300\<rparr>"
  by (auto simp: has_box_iff [symmetric] getStrokeBounds_def newStroke_def d_far_def
      startsWith_def lit_def)

lemma box_edge:
  "has_box (newStroke d_edge r) b \<longleftrightarrow> b = \<lparr>minX = 40, minY = 40, maxX = 140, maxY = 140\<rparr>"
  by (auto simp: has_box_iff [symmetric] getStrokeBounds_def newStroke_def d_edge_def
      startsWith_def lit_def)

lemma band_examples:
  "\<not> band_selects origin corner50 (newStroke d_far r0)"
  "band_selects origin corner50 (newStroke d_dot r1)"
  "band_selects origin corner50 (newStroke d_edge r2)"
  "band_selects origin corner50 (newStroke d_note r3)"
  "\<not> band_selects corner50 origin (newStroke d_far r0)"
  "band_selects corner50 origin (newStroke d_dot r1)"
  "band_selects corner50 origin (newStroke d_edge r2)"
  "band_selects corner50 origin (newStroke d_note r3)"
  by (simp_all add: band_selects_def not_freehand is_freehand box_far box_edge box_note
      in_band_def between_def box_meets_band_def origin_def corner50_def)
     (simp_all add: newStroke_def d_dot_def)

text \<open>
  The band \<open>(0, 0)\<close>--\<open>(50, 50)\<close>, dragged either way, selects the pen stroke with its one point
  at \<open>(25, 25)\<close>, the line whose box reaches into it and the text whose box lies in it, and
  not the circle away from it.
\<close>

theorem rect_select_three_rules_witness:
  "newStroke d_dot r1 \<in> set (getPageStrokes band_store 1)
   \<and> points (newStroke d_dot r1) = [\<lparr>px = 25, py = 25\<rparr>]
   \<and> band_selects origin corner50 (newStroke d_dot r1)
   \<and> claim_selects origin corner50 (newStroke d_dot r1)
   \<and> findStrokesInRect band_store 1 origin corner50 = [mk_id r1, mk_id r2, mk_id r3]
   \<and> findStrokesInRect band_store 1 corner50 origin = [mk_id r1, mk_id r2, mk_id r3]
   \<and> mk_id r1 \<in> set (findStrokesInRect band_store 1 origin corner50)
   \<and> mk_id r0 \<notin> set (findStrokesInRect band_store 1 origin corner50)"
proof -
  have pt: "points (newStroke d_dot r1) = [\<lparr>px = 25, py = 25\<rparr>]"
    by (simp add: newStroke_def d_dot_def)
  show ?thesis
    using pt band_examples
      rect_select_three_rules [of band_store 1 origin corner50 "mk_id r1" "newStroke d_dot r1"]
      rect_select_three_rules [of band_store 1 corner50 origin "mk_id r1" "newStroke d_dot r1"]
    by (simp add: page_band_store id_s_newStroke ids_differ ids_differ_r3)
qed

text \<open>
  C7 as stated fails for a pen stroke that crosses the band with no sample point in it:
  the box that spans the points \<open>(0, 0)\<close> and \<open>(100, 100)\<close> has its centre in the band
  \<open>(40, 40)\<close>--\<open>(60, 60)\<close> and overlaps it, and the stroke is not selected.
\<close>

theorem rect_select_three_rules_counterexample:
  "newStroke d_diag r0 \<in> set (getPageStrokes diag_store 1)
   \<and> envelope (points (newStroke d_diag r0))
       = Some \<lparr>minX = 0, minY = 0, maxX = 100, maxY = 100\<rparr>
   \<and> claim_selects c40 c60 (newStroke d_diag r0)
   \<and> findStrokesInRect diag_store 1 c40 c60 = []"
proof -
  have e: "envelope (points (newStroke d_diag r0))
             = Some \<lparr>minX = 0, minY = 0, maxX = 100, maxY = 100\<rparr>"
    by (simp add: newStroke_def d_diag_def)
  have c: "claim_selects c40 c60 (newStroke d_diag r0)"
    unfolding claim_selects_def stroke_box_def
    by (intro disjI2 exI [of _ "\<lparr>minX = 0, minY = 0, maxX = 100, maxY = 100\<rparr>"])
       (simp add: is_freehand e box_meets_band_def c40_def c60_def)
  have f: "findStrokesInRect diag_store 1 c40 c60 = []"
    by (simp add: findStrokesInRect_def getPageStrokes_def diag_store_def addStroke_def
        init_store_def isInside_def rect_of_def c40_def c60_def newStroke_def d_diag_def)
  have m: "newStroke d_diag r0 \<in> set (getPageStrokes diag_store 1)"
    by (simp add: getPageStrokes_def diag_store_def addStroke_def init_store_def)
       (simp add: newStroke_def d_diag_def)
  from m e c f show ?thesis by simp
qed

section \<open>The prefetch queue\<close>








end
